theory Spec2Isabelle
  imports Main
begin

section \<open>Values at the HTTP boundary\<close>

text \<open>
  A field of \<open>req.body\<close> (and the cookie) is either undefined or a string. JavaScript's
  \<open>!v\<close> is true for undefined and for the empty string.
\<close>

definition truthy :: "string option \<Rightarrow> bool" where
  "truthy v = (case v of None \<Rightarrow> False | Some s \<Rightarrow> s \<noteq> [])"

text \<open>A thrown \<open>Error\<close>, with its message.\<close>

datatype exn = Error string

fun message :: "exn \<Rightarrow> string" where
  "message (Error m) = m"

text \<open>The three Swedish letters of the messages, as UTF-8.\<close>

definition aa :: string where "aa = [CHR 0xC3, CHR 0xA5]"
definition ae :: string where "ae = [CHR 0xC3, CHR 0xA4]"
definition oe :: string where "oe = [CHR 0xC3, CHR 0xB6]"

section \<open>The User collection\<close>

text \<open>
  A document of the collection: \<open>uid\<close> is the document's \<open>_id\<close>, \<open>password\<close> the stored
  bcrypt hash, \<open>twoFactorSecret\<close> the base32 secret when one was set.
\<close>

record user =
  uid :: nat
  email :: string
  password :: string
  twoFactorSecret :: "string option"

text \<open>The collection, and whether the database answers (every call rejects when not).\<close>

record store =
  docs :: "user list"
  online :: bool

definition store_down :: exn where
  "store_down = Error ''MongoNetworkError''"

text \<open>\<open>User.findOne({ email })\<close>: the first document whose email is the one asked for.\<close>

definition findOne :: "store \<Rightarrow> string option \<Rightarrow> exn + user option" where
  "findOne db q =
     (if \<not> online db then Inl store_down
      else Inr (find (\<lambda>d. Some (email d) = q) (docs db)))"

text \<open>\<open>user.save()\<close> on a document that was read: it replaces the document of that \<open>_id\<close>.\<close>

definition save :: "store \<Rightarrow> user \<Rightarrow> exn + store" where
  "save db u =
     (if \<not> online db then Inl store_down
      else Inr (db\<lparr>docs := map (\<lambda>d. if uid d = uid u then u else d) (docs db)\<rparr>))"

definition fresh_uid :: "user list \<Rightarrow> nat" where
  "fresh_uid ds = Suc (foldr max (map uid ds) 0)"

section \<open>The libraries the routes call\<close>

text \<open>What \<open>speakeasy.generateSecret\<close> returns: one secret in two encodings.\<close>

record secret =
  secret_ascii :: string
  secret_base32 :: string

text \<open>What the eID client's \<open>authRequest\<close> resolves to: \<open>eid_extra\<close> is \<open>result.extra\<close>
  (undefined, or an object whose \<open>primaryEmail\<close> is undefined or a string), \<open>eid_details\<close>
  stands for the rest of the provider's object.\<close>

record eid_result =
  eid_status :: string
  eid_extra :: "string option option"
  eid_details :: string

text \<open>
  The libraries are parameters of the model. \<open>bcrypt_compare\<close> is
  \<open>bcrypt.compare(data, hash)\<close>; \<open>totp_verify\<close> is \<open>speakeasy.totp.verify\<close> applied to
  secret, encoding and token at a time in seconds; \<open>generateSecret\<close> takes the length and
  the random draw of the request; \<open>otpauthURL\<close> takes secret, label and issuer;
  \<open>toDataURL\<close> is \<open>qrcode.toDataURL\<close>; \<open>authRequest\<close> takes the \<open>id_type\<close> of the
  configuration and the identifier. A call that can throw or reject returns \<open>Inl\<close>.
\<close>

record env =
  bcrypt_hash :: "string \<Rightarrow> string"
  bcrypt_compare :: "string option \<Rightarrow> string \<Rightarrow> exn + bool"
  totp_verify :: "string option \<Rightarrow> string \<Rightarrow> string option \<Rightarrow> nat \<Rightarrow> exn + bool"
  generateSecret :: "nat \<Rightarrow> nat \<Rightarrow> secret"
  otpauthURL :: "string \<Rightarrow> string \<Rightarrow> string \<Rightarrow> string"
  toDataURL :: "string \<Rightarrow> exn + string"
  authRequest :: "string \<Rightarrow> string \<Rightarrow> exn + eid_result"

text \<open>
  Modelled from the spec: \<open>models/User.js\<close> is not among the sources. The spec has
  Register create an Account with \<open>passwordHash = Hash(password)\<close> and no second factor
  bound; \<open>new User({ email, password }).save()\<close> is that creation.
\<close>

definition save_new :: "env \<Rightarrow> store \<Rightarrow> string \<Rightarrow> string \<Rightarrow> exn + store" where
  "save_new env db e p =
     (if \<not> online db then Inl store_down
      else Inr (db\<lparr>docs := docs db @
        [\<lparr>uid = fresh_uid (docs db), email = e, password = bcrypt_hash env p,
          twoFactorSecret = None\<rparr>]\<rparr>))"

section \<open>Session tokens\<close>

datatype alg = RS256 | HS256 | AlgNone

text \<open>
  Modelled from the spec: the \<open>jsonwebtoken\<close> library is not among the sources. The spec's
  Session Token carries \<open>subject\<close>, \<open>issuedAt\<close> and \<open>expiresAt\<close>, and is valid iff its
  signature verifies against the service's public key, the current time is before
  \<open>expiresAt\<close>, and the signing algorithm matches the one configured. A key is a number:
  a signature made with private key \<open>k\<close> verifies against public key \<open>k\<close> only.
\<close>

record jwt =
  jwt_alg :: alg
  jwt_email :: "string option"
  jwt_iat :: nat
  jwt_exp :: nat
  jwt_key :: nat

text \<open>What the cookie named \<open>token\<close> holds: a string that is no token, or a token.\<close>

datatype cookie_token = Garbled string | Signed jwt

definition jwt_sign :: "string option \<Rightarrow> nat \<Rightarrow> alg \<Rightarrow> nat \<Rightarrow> nat \<Rightarrow> jwt" where
  "jwt_sign e key a expiresIn now =
     \<lparr>jwt_alg = a, jwt_email = e, jwt_iat = now, jwt_exp = now + expiresIn, jwt_key = key\<rparr>"

fun jwt_verify :: "cookie_token \<Rightarrow> nat \<Rightarrow> alg list \<Rightarrow> nat \<Rightarrow> exn + jwt" where
  "jwt_verify (Garbled s) pub algorithms now = Inl (Error ''jwt malformed'')"
| "jwt_verify (Signed t) pub algorithms now =
     (if jwt_alg t \<notin> set algorithms then Inl (Error ''invalid algorithm'')
      else if jwt_key t \<noteq> pub then Inl (Error ''invalid signature'')
      else if \<not> now < jwt_exp t then Inl (Error ''jwt expired'')
      else Inr t)"

text \<open>The two keys read from \<open>./cert\<close> at startup.\<close>

record config =
  privateKey :: nat
  publicKey :: nat

section \<open>Responses and the calls a route makes\<close>

datatype jval = JStr string | JBool bool | JResult eid_result

record response =
  status :: nat
  body :: "(string \<times> jval) list"
  cookie :: "cookie_token option"

text \<open>\<open>res.status(c).json(b)\<close>; \<open>res.json(b)\<close> alone answers 200.\<close>

definition reply :: "nat \<Rightarrow> (string \<times> jval) list \<Rightarrow> response" where
  "reply c b = \<lparr>status = c, body = b, cookie = None\<rparr>"

text \<open>The calls to the store and to the libraries, in the order a route makes them.\<close>

datatype call =
    FindOne "string option"
  | SaveNew string string
  | Save user
  | BcryptCompare "string option" string
  | TotpVerify "string option" string "string option"
  | GenerateSecret nat
  | OtpauthURL string string string
  | ToDataURL string
  | JwtSign "string option" nat alg nat
  | AuthRequest string string

fun is_TotpVerify :: "call \<Rightarrow> bool" where
  "is_TotpVerify (TotpVerify s e t) = True"
| "is_TotpVerify c = False"

fun is_FindOne :: "call \<Rightarrow> bool" where
  "is_FindOne (FindOne q) = True"
| "is_FindOne c = False"

section \<open>The messages\<close>

definition msg_token_missing :: string where
  "msg_token_missing = ''Token saknas''"

definition msg_token_invalid :: string where
  "msg_token_invalid = ''Medskickad token '' @ ae @ ''r inte giltig''"

definition msg_credentials_required :: string where
  "msg_credentials_required = ''Epost och l'' @ oe @ ''senord kr'' @ ae @ ''vs''"

definition msg_user_exists :: string where
  "msg_user_exists = ''En anv'' @ ae @ ''ndare med denna epost finns redan''"

definition msg_user_created :: string where
  "msg_user_created = ''Anv'' @ ae @ ''ndare skapad med epost''"

definition msg_register_failed :: string where
  "msg_register_failed = ''N'' @ aa @ ''got gick fel vid registreringen''"

definition msg_no_such_email :: string where
  "msg_no_such_email = ''Det finns ingen anv'' @ ae @ ''ndare med denna epostadress''"

definition msg_wrong_login :: string where
  "msg_wrong_login = ''Fel l'' @ oe @ ''senord och/eller epostadress''"

definition msg_wrong_code :: string where
  "msg_wrong_code = ''Fel tv'' @ aa @ ''stegskod, f'' @ oe @ ''rs'' @ oe @ ''k igen.''"

definition msg_login_failed :: string where
  "msg_login_failed = ''N'' @ aa @ ''got gick fel vid inloggningen''"

definition msg_check_failed :: string where
  "msg_check_failed = ''N'' @ aa @ ''got gick fel med tv'' @ aa @ ''stegsinloggningen. (check)''"

definition msg_no_user :: string where
  "msg_no_user = ''Anv'' @ ae @ ''ndaren finns inte''"

definition msg_wrong_password :: string where
  "msg_wrong_password = ''Fel l'' @ oe @ ''senord''"

definition msg_twofactor_failed :: string where
  "msg_twofactor_failed = ''Ett fel har intr'' @ ae @ ''ffat vid konfiguration av tv'' @ aa @
     ''stegsinloggning. Kontakta support ()''"

definition msg_verify_required :: string where
  "msg_verify_required = ''Epost och tv'' @ aa @ ''stegskod kr'' @ ae @ ''vs f'' @ oe @
     ''r att validera''"

definition msg_code_expired :: string where
  "msg_code_expired = ''Fel tv'' @ aa @ ''stegskod, kontrollera s'' @ aa @
     '' att koden inte g'' @ aa @ ''tt ut.''"

definition msg_login_required :: string where
  "msg_login_required = ''Epost eller personnummer m'' @ aa @ ''ste anges''"

section \<open>The routes\<close>

subsection \<open>authenticateToken and GET /authenticate\<close>

text \<open>
  The middleware answers itself (\<open>Inl\<close>) or sets \<open>req.user\<close> and calls \<open>next\<close> (\<open>Inr\<close>).
  \<open>!token\<close> holds for no cookie and for the empty cookie.
\<close>

definition authenticateToken :: "config \<Rightarrow> nat \<Rightarrow> cookie_token option \<Rightarrow> response + string option" where
  "authenticateToken cfg now token =
     (case token of
        None \<Rightarrow> Inl (reply 403 [(''error'', JStr msg_token_missing)])
      | Some c \<Rightarrow>
          if c = Garbled [] then Inl (reply 403 [(''error'', JStr msg_token_missing)])
          else (case jwt_verify c (publicKey cfg) [RS256] now of
                  Inl err \<Rightarrow> Inl (reply 401 [(''error'', JStr msg_token_invalid)])
                | Inr user \<Rightarrow> Inr (jwt_email user)))"

text \<open>A field whose value is undefined is left out of the JSON.\<close>

definition get_authenticate :: "config \<Rightarrow> nat \<Rightarrow> cookie_token option \<Rightarrow> response" where
  "get_authenticate cfg now token =
     (case authenticateToken cfg now token of
        Inl r \<Rightarrow> r
      | Inr req_user \<Rightarrow>
          reply 200 ((''status'', JStr ''success'') #
            (case req_user of None \<Rightarrow> [] | Some e \<Rightarrow> [(''email'', JStr e)])))"

subsection \<open>POST /register\<close>

definition post_register ::
  "env \<Rightarrow> store \<Rightarrow> string option \<Rightarrow> string option \<Rightarrow> response \<times> store \<times> call list" where
  "post_register env db email0 password0 =
     (case email0 of
        None \<Rightarrow> (reply 400 [(''error'', JStr msg_credentials_required)], db, [])
      | Some e \<Rightarrow>
     (case password0 of
        None \<Rightarrow> (reply 400 [(''error'', JStr msg_credentials_required)], db, [])
      | Some p \<Rightarrow>
          if e = [] \<or> p = [] then (reply 400 [(''error'', JStr msg_credentials_required)], db, [])
          else (case findOne db (Some e) of
                  Inl error \<Rightarrow>
                    (reply 500 [(''error'', JStr msg_register_failed)], db, [FindOne (Some e)])
                | Inr (Some userExists) \<Rightarrow>
                    (reply 400 [(''error'', JStr msg_user_exists)], db, [FindOne (Some e)])
                | Inr None \<Rightarrow>
                    (case save_new env db e p of
                       Inl error \<Rightarrow>
                         (reply 500 [(''error'', JStr msg_register_failed)], db,
                          [FindOne (Some e), SaveNew e p])
                     | Inr db' \<Rightarrow>
                         (reply 200 [(''message'', JStr (msg_user_created @ e))], db',
                          [FindOne (Some e), SaveNew e p])))))"

subsection \<open>POST /login\<close>

text \<open>The route of the server with session tokens: success signs a token for one hour.\<close>

definition post_login ::
  "env \<Rightarrow> config \<Rightarrow> nat \<Rightarrow> store \<Rightarrow> string option \<Rightarrow> string option \<Rightarrow> string option
     \<Rightarrow> response \<times> call list" where
  "post_login env cfg now db email0 password0 twoFactorToken =
     (case findOne db email0 of
        Inl error \<Rightarrow>
          (reply 500 [(''error'', JStr msg_login_failed), (''details'', JStr (message error))],
           [FindOne email0])
      | Inr None \<Rightarrow> (reply 404 [(''error'', JStr msg_no_such_email)], [FindOne email0])
      | Inr (Some user) \<Rightarrow>
     (case bcrypt_compare env password0 (password user) of
        Inl error \<Rightarrow>
          (reply 500 [(''error'', JStr msg_login_failed), (''details'', JStr (message error))],
           [FindOne email0, BcryptCompare password0 (password user)])
      | Inr checkPassword \<Rightarrow>
          if \<not> checkPassword then
            (reply 401 [(''error'', JStr msg_wrong_login)],
             [FindOne email0, BcryptCompare password0 (password user)])
          else if truthy (twoFactorSecret user) then
            (case totp_verify env (twoFactorSecret user) ''base32'' twoFactorToken now of
               Inl error \<Rightarrow>
                 (reply 500 [(''error'', JStr msg_login_failed),
                             (''details'', JStr (message error))],
                  [FindOne email0, BcryptCompare password0 (password user),
                   TotpVerify (twoFactorSecret user) ''base32'' twoFactorToken])
             | Inr checkToken \<Rightarrow>
                 if \<not> checkToken then
                   (reply 401 [(''error'', JStr msg_wrong_code),
                               (''twoFactorRequired'', JBool True)],
                    [FindOne email0, BcryptCompare password0 (password user),
                     TotpVerify (twoFactorSecret user) ''base32'' twoFactorToken])
                 else
                   (\<lparr>status = 200, body = [(''status'', JStr ''success'')],
                     cookie = Some (Signed
                       (jwt_sign (Some (email user)) (privateKey cfg) RS256 3600 now))\<rparr>,
                    [FindOne email0, BcryptCompare password0 (password user),
                     TotpVerify (twoFactorSecret user) ''base32'' twoFactorToken,
                     JwtSign (Some (email user)) (privateKey cfg) RS256 3600]))
          else
            (\<lparr>status = 200, body = [(''status'', JStr ''success'')],
              cookie = Some (Signed
                (jwt_sign (Some (email user)) (privateKey cfg) RS256 3600 now))\<rparr>,
             [FindOne email0, BcryptCompare password0 (password user),
              JwtSign (Some (email user)) (privateKey cfg) RS256 3600])))"

text \<open>The route of \<open>server.js\<close>: the same checks, success answers without a token.\<close>

definition post_login_server_js ::
  "env \<Rightarrow> nat \<Rightarrow> store \<Rightarrow> string option \<Rightarrow> string option \<Rightarrow> string option
     \<Rightarrow> response \<times> call list" where
  "post_login_server_js env now db email0 password0 twoFactorToken =
     (case findOne db email0 of
        Inl error \<Rightarrow>
          (reply 500 [(''error'', JStr msg_login_failed), (''details'', JStr (message error))],
           [FindOne email0])
      | Inr None \<Rightarrow> (reply 404 [(''error'', JStr msg_no_such_email)], [FindOne email0])
      | Inr (Some user) \<Rightarrow>
     (case bcrypt_compare env password0 (password user) of
        Inl error \<Rightarrow>
          (reply 500 [(''error'', JStr msg_login_failed), (''details'', JStr (message error))],
           [FindOne email0, BcryptCompare password0 (password user)])
      | Inr checkPassword \<Rightarrow>
          if \<not> checkPassword then
            (reply 401 [(''error'', JStr msg_wrong_login)],
             [FindOne email0, BcryptCompare password0 (password user)])
          else if truthy (twoFactorSecret user) then
            (case totp_verify env (twoFactorSecret user) ''base32'' twoFactorToken now of
               Inl error \<Rightarrow>
                 (reply 500 [(''error'', JStr msg_login_failed),
                             (''details'', JStr (message error))],
                  [FindOne email0, BcryptCompare password0 (password user),
                   TotpVerify (twoFactorSecret user) ''base32'' twoFactorToken])
             | Inr checkToken \<Rightarrow>
                 if \<not> checkToken then
                   (reply 401 [(''error'', JStr msg_wrong_code),
                               (''twoFactorRequired'', JBool True)],
                    [FindOne email0, BcryptCompare password0 (password user),
                     TotpVerify (twoFactorSecret user) ''base32'' twoFactorToken])
                 else
                   (reply 200 [(''status'', JStr ''success'')],
                    [FindOne email0, BcryptCompare password0 (password user),
                     TotpVerify (twoFactorSecret user) ''base32'' twoFactorToken]))
          else
            (reply 200 [(''status'', JStr ''success'')],
             [FindOne email0, BcryptCompare password0 (password user)])))"

subsection \<open>POST /check\<close>

definition post_check :: "store \<Rightarrow> string option \<Rightarrow> response \<times> call list" where
  "post_check db email0 =
     (case findOne db email0 of
        Inl error \<Rightarrow> (reply 500 [(''error'', JStr msg_check_failed)], [FindOne email0])
      | Inr None \<Rightarrow> (reply 200 [(''twoFactor'', JBool False)], [FindOne email0])
      | Inr (Some user) \<Rightarrow>
          (reply 200 [(''twoFactor'', JBool (truthy (twoFactorSecret user)))], [FindOne email0]))"

subsection \<open>POST /setup\<close>

text \<open>\<open>entropy\<close> is the random draw that \<open>generateSecret\<close> makes in this request.\<close>

definition post_setup ::
  "env \<Rightarrow> nat \<Rightarrow> store \<Rightarrow> string option \<Rightarrow> string option \<Rightarrow> response \<times> store \<times> call list" where
  "post_setup env entropy db email0 password0 =
     (if \<not> truthy email0 \<or> \<not> truthy password0 then
        (reply 400 [(''error'', JStr msg_credentials_required)], db, [])
      else
     (case findOne db email0 of
        Inl error \<Rightarrow> (reply 500 [(''error'', JStr msg_twofactor_failed)], db, [FindOne email0])
      | Inr None \<Rightarrow> (reply 404 [(''error'', JStr msg_no_user)], db, [FindOne email0])
      | Inr (Some user) \<Rightarrow>
     (case bcrypt_compare env password0 (password user) of
        Inl error \<Rightarrow>
          (reply 500 [(''error'', JStr msg_twofactor_failed)], db,
           [FindOne email0, BcryptCompare password0 (password user)])
      | Inr checkPassword \<Rightarrow>
          if \<not> checkPassword then
            (reply 401 [(''error'', JStr msg_wrong_password)], db,
             [FindOne email0, BcryptCompare password0 (password user)])
          else
            let secret = generateSecret env 20 entropy;
                user' = user\<lparr>twoFactorSecret := Some (secret_base32 secret)\<rparr>;
                url = otpauthURL env (secret_ascii secret) ''Bonnier'' ''Exjobb''
            in (case save db user' of
                  Inl error \<Rightarrow>
                    (reply 500 [(''error'', JStr msg_twofactor_failed)], db,
                     [FindOne email0, BcryptCompare password0 (password user),
                      GenerateSecret 20, Save user'])
                | Inr db' \<Rightarrow>
                    (case toDataURL env url of
                       Inl error \<Rightarrow>
                         (reply 500 [(''error'', JStr msg_twofactor_failed)], db',
                          [FindOne email0, BcryptCompare password0 (password user),
                           GenerateSecret 20, Save user',
                           OtpauthURL (secret_ascii secret) ''Bonnier'' ''Exjobb'',
                           ToDataURL url])
                     | Inr qrCodeImageUrl \<Rightarrow>
                         (reply 200 [(''qrCodeImageUrl'', JStr qrCodeImageUrl)], db',
                          [FindOne email0, BcryptCompare password0 (password user),
                           GenerateSecret 20, Save user',
                           OtpauthURL (secret_ascii secret) ''Bonnier'' ''Exjobb'',
                           ToDataURL url]))))))"

subsection \<open>POST /verify\<close>

definition post_verify ::
  "env \<Rightarrow> nat \<Rightarrow> store \<Rightarrow> string option \<Rightarrow> string option \<Rightarrow> response \<times> call list" where
  "post_verify env now db email0 token =
     (if \<not> truthy email0 \<or> \<not> truthy token then
        (reply 400 [(''error'', JStr msg_verify_required)], [])
      else
     (case findOne db email0 of
        Inl error \<Rightarrow> (reply 500 [(''error'', JStr msg_twofactor_failed)], [FindOne email0])
      | Inr None \<Rightarrow> (reply 404 [(''error'', JStr msg_no_user)], [FindOne email0])
      | Inr (Some user) \<Rightarrow>
     (case totp_verify env (twoFactorSecret user) ''base32'' token now of
        Inl error \<Rightarrow>
          (reply 500 [(''error'', JStr msg_twofactor_failed)],
           [FindOne email0, TotpVerify (twoFactorSecret user) ''base32'' token])
      | Inr verified \<Rightarrow>
          if verified then
            (reply 200 [(''status'', JStr ''success'')],
             [FindOne email0, TotpVerify (twoFactorSecret user) ''base32'' token])
          else
            (reply 400 [(''error'', JStr msg_code_expired)],
             [FindOne email0, TotpVerify (twoFactorSecret user) ''base32'' token]))))"

subsection \<open>POST /freja\<close>

text \<open>
  The answer is sent in the \<open>then\<close> of \<open>authRequest\<close>: when the request rejects, or when
  \<open>result.extra\<close> is undefined on a completed result, nothing is sent (\<open>None\<close>).
  The route takes no store: it reads and writes no document.
\<close>

text \<open>\<open>if (!type) { type = "ssn"; }\<close>\<close>

definition default_type :: "string option \<Rightarrow> string" where
  "default_type type0 = (case type0 of None \<Rightarrow> ''ssn'' | Some t \<Rightarrow> if t = [] then ''ssn'' else t)"

definition post_freja ::
  "env \<Rightarrow> config \<Rightarrow> nat \<Rightarrow> string option \<Rightarrow> string option \<Rightarrow> response option \<times> call list" where
  "post_freja env cfg now login type0 =
     (case login of
        None \<Rightarrow> (Some (reply 400 [(''error'', JStr msg_login_required)]), [])
      | Some l \<Rightarrow>
          if l = [] then (Some (reply 400 [(''error'', JStr msg_login_required)]), [])
          else
            let id_type = default_type type0
            in (case authRequest env id_type l of
                  Inl error \<Rightarrow> (None, [AuthRequest id_type l])
                | Inr result \<Rightarrow>
                    if eid_status result = ''completed'' then
                      (case eid_extra result of
                         None \<Rightarrow> (None, [AuthRequest id_type l])
                       | Some primaryEmail \<Rightarrow>
                           (Some \<lparr>status = 200,
                                  body = [(''status'', JStr ''success''), (''user'', JResult result)],
                                  cookie = Some (Signed
                                    (jwt_sign primaryEmail (privateKey cfg) RS256 3600 now))\<rparr>,
                            [AuthRequest id_type l,
                             JwtSign primaryEmail (privateKey cfg) RS256 3600]))
                    else
                      (Some (reply 401 [(''error'', JResult result)]),
                       [AuthRequest id_type l])))"

section \<open>A small instance\<close>

text \<open>
  Stand-ins for the libraries, to run the routes on concrete requests. The hash of \<open>p\<close> is
  \<open>$2b$\<close> followed by \<open>p\<close>, and \<open>compare\<close> rejects when the data is undefined. As
  speakeasy 2.0.0 does, \<open>totp.verify\<close> always returns a boolean: it reads an undefined
  secret as the empty key, and says true exactly when the token is the six-digit code of
  the key at the 30-second step of the time. \<open>demo_code\<close> holds the codes at step 3
  (90 to 119 s) of the three keys that occur here; at other keys and steps the stand-in
  says false. The provider completes for one identifier.
\<close>

definition demo_code :: "string option \<Rightarrow> string option" where
  "demo_code s =
     (case s of
        None \<Rightarrow> Some ''887919''
      | Some k \<Rightarrow>
          if k = ''OLDSECRET'' then Some ''929827''
          else if k = ''NEWSECRET'' then Some ''207293''
          else None)"

definition demo_env :: env where
  "demo_env =
     \<lparr>bcrypt_hash = (\<lambda>p. ''$2b$'' @ p),
      bcrypt_compare = (\<lambda>d h. case d of
          None \<Rightarrow> Inl (Error ''data and hash arguments required'')
        | Some p \<Rightarrow> Inr (h = ''$2b$'' @ p)),
      totp_verify = (\<lambda>s enc t now.
        Inr (now div 30 = 3 \<and> t \<noteq> None \<and> t = demo_code s)),
      generateSecret = (\<lambda>n r. \<lparr>secret_ascii = ''raw-secret'', secret_base32 = ''NEWSECRET''\<rparr>),
      otpauthURL = (\<lambda>s l i. ''otpauth://totp/'' @ l @ ''?secret='' @ s @ ''&issuer='' @ i),
      toDataURL = (\<lambda>u. Inr (''data:image/png;base64,'' @ u)),
      authRequest = (\<lambda>t l.
        if l = ''199001011234''
        then Inr \<lparr>eid_status = ''completed'', eid_extra = Some (Some ''c@x.com''),
                  eid_details = ''ok''\<rparr>
        else Inr \<lparr>eid_status = ''failed'', eid_extra = None, eid_details = ''cancelled''\<rparr>)\<rparr>"

definition demo_cfg :: config where
  "demo_cfg = \<lparr>privateKey = 7, publicKey = 7\<rparr>"

text \<open>Two accounts: the first has no second factor, the second has one.\<close>

definition demo_a :: user where
  "demo_a = \<lparr>uid = 1, email = ''a@x.com'', password = ''$2b$p1'', twoFactorSecret = None\<rparr>"

definition demo_b :: user where
  "demo_b = \<lparr>uid = 2, email = ''b@x.com'', password = ''$2b$p2'',
              twoFactorSecret = Some ''OLDSECRET''\<rparr>"

definition demo_db :: store where
  "demo_db = \<lparr>docs = [demo_a, demo_b], online = True\<rparr>"

lemmas demo_defs = demo_env_def demo_code_def demo_cfg_def demo_a_def demo_b_def demo_db_def

section \<open>Facts about the store\<close>

lemma findOne_email: "findOne db q = Inr (Some u) \<Longrightarrow> q = Some (email u)"
  by (auto simp: findOne_def find_Some_iff split: if_splits)

lemma find_after_replace:
  "find (\<lambda>d. Some (email d) = q) ds = Some u \<Longrightarrow> email u' = email u \<Longrightarrow> uid u' = uid u \<Longrightarrow>
   find (\<lambda>d. Some (email d) = q) (map (\<lambda>d. if uid d = uid u' then u' else d) ds) = Some u'"
  by (induction ds) (auto split: if_splits)

lemma find_after_append: "find P ds = None \<Longrightarrow> P x \<Longrightarrow> find P (ds @ [x]) = Some x"
  by (induction ds) (auto split: if_splits)

lemma demo_findOne_a: "findOne demo_db (Some ''a@x.com'') = Inr (Some demo_a)"
  by (simp add: findOne_def demo_defs)

lemma demo_findOne_b: "findOne demo_db (Some ''b@x.com'') = Inr (Some demo_b)"
  by (simp add: findOne_def demo_defs)

lemma demo_findOne_n: "findOne demo_db (Some ''n@x.com'') = Inr None"
  by (simp add: findOne_def demo_defs)

section \<open>Login\<close>

text \<open>
  C1. In both login routes the checks come in this order. When no document has the email,
  the answer is 404 (UnknownAccount) and only the store was asked. When a document is found
  and \<open>bcrypt.compare\<close> says false, the answer is 401 with the wrong-password message
  (InvalidCredentials) after exactly the store lookup and the comparison: the answer is the
  same whatever the account's \<open>twoFactorSecret\<close> and whatever code was sent, so it tells
  nothing about enrollment. And whenever \<open>speakeasy.totp.verify\<close> is called at all, the
  account was found, the password had verified, a secret is present, and the call is the
  third one, after the lookup and the comparison.
\<close>

theorem login_check_order:
  assumes "route = post_login env cfg now \<or> route = post_login_server_js env now"
  shows "(findOne db email0 = Inr None \<longrightarrow>
            route db email0 password0 tok =
              (reply 404 [(''error'', JStr msg_no_such_email)], [FindOne email0]))
       \<and> (\<forall>user. findOne db email0 = Inr (Some user)
                 \<and> bcrypt_compare env password0 (password user) = Inr False \<longrightarrow>
            route db email0 password0 tok =
              (reply 401 [(''error'', JStr msg_wrong_login)],
               [FindOne email0, BcryptCompare password0 (password user)]))
       \<and> ((\<exists>c \<in> set (snd (route db email0 password0 tok)). is_TotpVerify c) \<longrightarrow>
            (\<exists>user. findOne db email0 = Inr (Some user)
                 \<and> bcrypt_compare env password0 (password user) = Inr True
                 \<and> truthy (twoFactorSecret user)
                 \<and> take 3 (snd (route db email0 password0 tok)) =
                     [FindOne email0, BcryptCompare password0 (password user),
                      TotpVerify (twoFactorSecret user) ''base32'' tok]))"
  using assms
  by (auto simp: post_login_def post_login_server_js_def split: sum.splits option.splits if_splits)

theorem login_check_order_witness:
  "findOne demo_db (Some ''n@x.com'') = Inr None
 \<and> post_login demo_env demo_cfg 100 demo_db (Some ''n@x.com'') (Some ''p1'') None =
     (reply 404 [(''error'', JStr msg_no_such_email)], [FindOne (Some ''n@x.com'')])
 \<and> findOne demo_db (Some ''b@x.com'') = Inr (Some demo_b)
 \<and> bcrypt_compare demo_env (Some ''bad'') (password demo_b) = Inr False
 \<and> post_login_server_js demo_env 100 demo_db (Some ''b@x.com'') (Some ''bad'') (Some ''123456'') =
     (reply 401 [(''error'', JStr msg_wrong_login)],
      [FindOne (Some ''b@x.com''), BcryptCompare (Some ''bad'') (password demo_b)])
 \<and> is_TotpVerify (TotpVerify (Some ''OLDSECRET'') ''base32'' (Some ''123456''))
 \<and> TotpVerify (Some ''OLDSECRET'') ''base32'' (Some ''123456'') \<in>
     set (snd (post_login demo_env demo_cfg 100 demo_db (Some ''b@x.com'') (Some ''p2'')
                 (Some ''123456'')))
 \<and> (\<exists>user. findOne demo_db (Some ''b@x.com'') = Inr (Some user)
       \<and> bcrypt_compare demo_env (Some ''p2'') (password user) = Inr True
       \<and> truthy (twoFactorSecret user)
       \<and> take 3 (snd (post_login demo_env demo_cfg 100 demo_db (Some ''b@x.com'') (Some ''p2'')
                         (Some ''123456''))) =
           [FindOne (Some ''b@x.com''), BcryptCompare (Some ''p2'') (password user),
            TotpVerify (twoFactorSecret user) ''base32'' (Some ''123456'')])"
proof -
  have c2: "bcrypt_compare demo_env (Some ''bad'') (password demo_b) = Inr False"
    by (simp add: demo_defs)
  have m: "TotpVerify (Some ''OLDSECRET'') ''base32'' (Some ''123456'') \<in>
     set (snd (post_login demo_env demo_cfg 100 demo_db (Some ''b@x.com'') (Some ''p2'')
                 (Some ''123456'')))"
    by (simp add: post_login_def demo_findOne_b) (simp add: demo_defs truthy_def)
  note a = login_check_order [where route = "post_login demo_env demo_cfg 100"
      and env = demo_env and cfg = demo_cfg and now = 100 and db = demo_db
      and ?email0.0 = "Some ''n@x.com''" and ?password0.0 = "Some ''p1''" and tok = None]
  note b = login_check_order [where route = "post_login_server_js demo_env 100"
      and env = demo_env and cfg = demo_cfg and now = 100 and db = demo_db
      and ?email0.0 = "Some ''b@x.com''" and ?password0.0 = "Some ''bad''"
      and tok = "Some ''123456''"]
  note c = login_check_order [where route = "post_login demo_env demo_cfg 100"
      and env = demo_env and cfg = demo_cfg and now = 100 and db = demo_db
      and ?email0.0 = "Some ''b@x.com''" and ?password0.0 = "Some ''p2''"
      and tok = "Some ''123456''"]
  from a demo_findOne_n
  have r1: "post_login demo_env demo_cfg 100 demo_db (Some ''n@x.com'') (Some ''p1'') None =
     (reply 404 [(''error'', JStr msg_no_such_email)], [FindOne (Some ''n@x.com'')])"
    by blast
  from b demo_findOne_b c2
  have r2: "post_login_server_js demo_env 100 demo_db (Some ''b@x.com'') (Some ''bad'')
              (Some ''123456'') =
     (reply 401 [(''error'', JStr msg_wrong_login)],
      [FindOne (Some ''b@x.com''), BcryptCompare (Some ''bad'') (password demo_b)])"
    by blast
  from c m
  have r3: "\<exists>user. findOne demo_db (Some ''b@x.com'') = Inr (Some user)
       \<and> bcrypt_compare demo_env (Some ''p2'') (password user) = Inr True
       \<and> truthy (twoFactorSecret user)
       \<and> take 3 (snd (post_login demo_env demo_cfg 100 demo_db (Some ''b@x.com'') (Some ''p2'')
                         (Some ''123456''))) =
           [FindOne (Some ''b@x.com''), BcryptCompare (Some ''p2'') (password user),
            TotpVerify (twoFactorSecret user) ''base32'' (Some ''123456'')]"
    by (meson is_TotpVerify.simps(1))
  show ?thesis
    using demo_findOne_n r1 demo_findOne_b c2 r2 m r3 by simp
qed

text \<open>
  C2, as amended. For an account with a secret whose password verified, a code that
  \<open>speakeasy.totp.verify\<close> rejects is answered 401 with the second-factor message and
  \<open>twoFactorRequired: true\<close> (InvalidSecondFactor), in both login routes. The answer is
  this one constant: its flag is always true and says that a second factor was required,
  not whether the code was absent or wrong.
\<close>

theorem login_second_factor_rejected:
  assumes "route = post_login env cfg now \<or> route = post_login_server_js env now"
    and "findOne db email0 = Inr (Some user)"
    and "bcrypt_compare env password0 (password user) = Inr True"
    and "truthy (twoFactorSecret user)"
    and "totp_verify env (twoFactorSecret user) ''base32'' tok now = Inr False"
  shows "route db email0 password0 tok =
           (reply 401 [(''error'', JStr msg_wrong_code), (''twoFactorRequired'', JBool True)],
            [FindOne email0, BcryptCompare password0 (password user),
             TotpVerify (twoFactorSecret user) ''base32'' tok])"
  using assms by (auto simp: post_login_def post_login_server_js_def)

theorem login_second_factor_rejected_witness:
  "findOne demo_db (Some ''b@x.com'') = Inr (Some demo_b)
 \<and> bcrypt_compare demo_env (Some ''p2'') (password demo_b) = Inr True
 \<and> truthy (twoFactorSecret demo_b)
 \<and> totp_verify demo_env (twoFactorSecret demo_b) ''base32'' (Some ''000000'') 100 = Inr False
 \<and> post_login demo_env demo_cfg 100 demo_db (Some ''b@x.com'') (Some ''p2'') (Some ''000000'') =
     (reply 401 [(''error'', JStr msg_wrong_code), (''twoFactorRequired'', JBool True)],
      [FindOne (Some ''b@x.com''), BcryptCompare (Some ''p2'') (password demo_b),
       TotpVerify (twoFactorSecret demo_b) ''base32'' (Some ''000000'')])"
proof -
  have h2: "bcrypt_compare demo_env (Some ''p2'') (password demo_b) = Inr True"
    by (simp add: demo_defs)
  have h3: "truthy (twoFactorSecret demo_b)"
    by (simp add: demo_defs truthy_def)
  have h4: "totp_verify demo_env (twoFactorSecret demo_b) ''base32'' (Some ''000000'') 100 =
      Inr False"
    by (simp add: demo_defs)
  have h0: "post_login demo_env demo_cfg 100 = post_login demo_env demo_cfg 100
      \<or> post_login demo_env demo_cfg 100 = post_login_server_js demo_env 100"
    by simp
  from login_second_factor_rejected [OF h0 demo_findOne_b h2 h3 h4]
  show ?thesis using demo_findOne_b h2 h3 h4 by simp
qed

text \<open>
  The claim as stated fails: an empty code and a wrong code, sent with the right password
  to the account with a secret, get the same answer, flag included.
\<close>

theorem login_second_factor_flag_counterexample:
  "fst (post_login demo_env demo_cfg 100 demo_db (Some ''b@x.com'') (Some ''p2'') (Some [])) =
     reply 401 [(''error'', JStr msg_wrong_code), (''twoFactorRequired'', JBool True)]
 \<and> fst (post_login demo_env demo_cfg 100 demo_db (Some ''b@x.com'') (Some ''p2'')
          (Some ''000000'')) =
     reply 401 [(''error'', JStr msg_wrong_code), (''twoFactorRequired'', JBool True)]"
  by (simp add: post_login_def demo_findOne_b) (simp add: demo_defs truthy_def)

text \<open>
  C3. For an account found by the lookup whose \<open>twoFactorSecret\<close> is absent (or empty),
  whatever code is sent, present or not: when \<open>bcrypt.compare\<close> says true, both login routes
  answer success (the token route signs a token for the email), and when it does not,
  neither answers 200; and \<open>speakeasy.totp.verify\<close> is never called.
\<close>

theorem login_without_second_factor:
  assumes "findOne db email0 = Inr (Some user)"
    and "\<not> truthy (twoFactorSecret user)"
  shows "(bcrypt_compare env password0 (password user) = Inr True \<longrightarrow>
            post_login env cfg now db email0 password0 tok =
              (\<lparr>status = 200, body = [(''status'', JStr ''success'')],
                cookie = Some (Signed (jwt_sign email0 (privateKey cfg) RS256 3600 now))\<rparr>,
               [FindOne email0, BcryptCompare password0 (password user),
                JwtSign email0 (privateKey cfg) RS256 3600])
          \<and> post_login_server_js env now db email0 password0 tok =
              (reply 200 [(''status'', JStr ''success'')],
               [FindOne email0, BcryptCompare password0 (password user)]))
       \<and> (bcrypt_compare env password0 (password user) \<noteq> Inr True \<longrightarrow>
            status (fst (post_login env cfg now db email0 password0 tok)) \<noteq> 200
          \<and> status (fst (post_login_server_js env now db email0 password0 tok)) \<noteq> 200)
       \<and> (\<forall>c \<in> set (snd (post_login env cfg now db email0 password0 tok)). \<not> is_TotpVerify c)
       \<and> (\<forall>c \<in> set (snd (post_login_server_js env now db email0 password0 tok)).
             \<not> is_TotpVerify c)"
  using assms findOne_email[OF assms(1)]
  by (auto simp: post_login_def post_login_server_js_def reply_def split: sum.splits)

theorem login_without_second_factor_witness:
  "findOne demo_db (Some ''a@x.com'') = Inr (Some demo_a)
 \<and> \<not> truthy (twoFactorSecret demo_a)
 \<and> bcrypt_compare demo_env (Some ''p1'') (password demo_a) = Inr True
 \<and> post_login demo_env demo_cfg 100 demo_db (Some ''a@x.com'') (Some ''p1'') (Some ''999999'') =
     (\<lparr>status = 200, body = [(''status'', JStr ''success'')],
       cookie = Some (Signed (jwt_sign (Some ''a@x.com'') (privateKey demo_cfg) RS256 3600 100))\<rparr>,
      [FindOne (Some ''a@x.com''), BcryptCompare (Some ''p1'') (password demo_a),
       JwtSign (Some ''a@x.com'') (privateKey demo_cfg) RS256 3600])
 \<and> post_login_server_js demo_env 100 demo_db (Some ''a@x.com'') (Some ''p1'') (Some ''999999'') =
     (reply 200 [(''status'', JStr ''success'')],
      [FindOne (Some ''a@x.com''), BcryptCompare (Some ''p1'') (password demo_a)])
 \<and> bcrypt_compare demo_env (Some ''bad'') (password demo_a) \<noteq> Inr True
 \<and> status (fst (post_login demo_env demo_cfg 100 demo_db (Some ''a@x.com'') (Some ''bad'') None))
     \<noteq> 200
 \<and> status (fst (post_login_server_js demo_env 100 demo_db (Some ''a@x.com'') (Some ''bad'') None))
     \<noteq> 200
 \<and> BcryptCompare (Some ''bad'') (password demo_a) \<in>
     set (snd (post_login demo_env demo_cfg 100 demo_db (Some ''a@x.com'') (Some ''bad'') None))
 \<and> \<not> is_TotpVerify (BcryptCompare (Some ''bad'') (password demo_a))"
proof -
  have h2: "\<not> truthy (twoFactorSecret demo_a)"
    by (simp add: demo_defs truthy_def)
  have h3: "bcrypt_compare demo_env (Some ''p1'') (password demo_a) = Inr True"
    by (simp add: demo_defs)
  have h4: "bcrypt_compare demo_env (Some ''bad'') (password demo_a) \<noteq> Inr True"
    by (simp add: demo_defs)
  have m: "BcryptCompare (Some ''bad'') (password demo_a) \<in>
     set (snd (post_login demo_env demo_cfg 100 demo_db (Some ''a@x.com'') (Some ''bad'') None))"
    by (simp add: post_login_def demo_findOne_a) (simp add: demo_defs)
  note good = login_without_second_factor [OF demo_findOne_a h2, where env = demo_env
      and ?password0.0 = "Some ''p1''" and cfg = demo_cfg and now = 100
      and tok = "Some ''999999''"]
  note bad = login_without_second_factor [OF demo_findOne_a h2, where env = demo_env
      and ?password0.0 = "Some ''bad''" and cfg = demo_cfg and now = 100 and tok = None]
  from good h3
  have r1: "post_login demo_env demo_cfg 100 demo_db (Some ''a@x.com'') (Some ''p1'')
              (Some ''999999'') =
     (\<lparr>status = 200, body = [(''status'', JStr ''success'')],
       cookie = Some (Signed (jwt_sign (Some ''a@x.com'') (privateKey demo_cfg) RS256 3600 100))\<rparr>,
      [FindOne (Some ''a@x.com''), BcryptCompare (Some ''p1'') (password demo_a),
       JwtSign (Some ''a@x.com'') (privateKey demo_cfg) RS256 3600])"
    and r2: "post_login_server_js demo_env 100 demo_db (Some ''a@x.com'') (Some ''p1'')
               (Some ''999999'') =
     (reply 200 [(''status'', JStr ''success'')],
      [FindOne (Some ''a@x.com''), BcryptCompare (Some ''p1'') (password demo_a)])"
    by blast+
  from bad h4
  have r3: "status (fst (post_login demo_env demo_cfg 100 demo_db (Some ''a@x.com'')
                           (Some ''bad'') None)) \<noteq> 200"
    and r4: "status (fst (post_login_server_js demo_env 100 demo_db (Some ''a@x.com'')
                            (Some ''bad'') None)) \<noteq> 200"
    by blast+
  from bad m have r5: "\<not> is_TotpVerify (BcryptCompare (Some ''bad'') (password demo_a))"
    by blast
  show ?thesis
    using demo_findOne_a h2 h3 h4 r1 r2 r3 r4 m r5 by simp
qed

section \<open>Second-factor setup and confirmation\<close>

text \<open>
  C4. When the account is found and \<open>bcrypt.compare\<close> does not say true, POST /setup
  returns the store it was given: no document changes, \<open>save\<close> is not reached. When it
  says false and email and password were both sent (the route first answers 400 to a
  request that lacks one), the answer is 401 with the wrong-password message
  (InvalidCredentials), after the lookup and the comparison only.
\<close>

theorem setup_wrong_password:
  assumes "findOne db email0 = Inr (Some user)"
    and "bcrypt_compare env password0 (password user) \<noteq> Inr True"
  shows "fst (snd (post_setup env entropy db email0 password0)) = db
       \<and> (truthy email0 \<and> truthy password0
            \<and> bcrypt_compare env password0 (password user) = Inr False \<longrightarrow>
            post_setup env entropy db email0 password0 =
              (reply 401 [(''error'', JStr msg_wrong_password)], db,
               [FindOne email0, BcryptCompare password0 (password user)]))"
  using assms by (auto simp: post_setup_def split: sum.splits)

theorem setup_wrong_password_witness:
  "findOne demo_db (Some ''b@x.com'') = Inr (Some demo_b)
 \<and> bcrypt_compare demo_env (Some ''bad'') (password demo_b) = Inr False
 \<and> truthy (Some ''b@x.com'') \<and> truthy (Some ''bad'')
 \<and> fst (snd (post_setup demo_env 5 demo_db (Some ''b@x.com'') (Some ''bad''))) = demo_db
 \<and> post_setup demo_env 5 demo_db (Some ''b@x.com'') (Some ''bad'') =
     (reply 401 [(''error'', JStr msg_wrong_password)], demo_db,
      [FindOne (Some ''b@x.com''), BcryptCompare (Some ''bad'') (password demo_b)])"
proof -
  have h2: "bcrypt_compare demo_env (Some ''bad'') (password demo_b) = Inr False"
    by (simp add: demo_defs)
  have h3: "truthy (Some ''b@x.com'') \<and> truthy (Some ''bad'')"
    by (simp add: truthy_def)
  have h2': "bcrypt_compare demo_env (Some ''bad'') (password demo_b) \<noteq> Inr True"
    by (simp add: demo_defs)
  from setup_wrong_password [OF demo_findOne_b h2', of 5] h2 h3
  show ?thesis using demo_findOne_b by simp
qed

text \<open>
  POST /verify relays the library: for a found account and a request with both fields,
  whatever the account's \<open>twoFactorSecret\<close> is, a true \<open>speakeasy.totp.verify\<close> is
  answered 200. The route does not look whether the account has a secret, as the login
  routes do before they call the library.
\<close>

lemma post_verify_relays:
  assumes "truthy email0" and "truthy token"
    and "findOne db email0 = Inr (Some user)"
    and "totp_verify env (twoFactorSecret user) ''base32'' token now = Inr True"
  shows "post_verify env now db email0 token =
           (reply 200 [(''status'', JStr ''success'')],
            [FindOne email0, TotpVerify (twoFactorSecret user) ''base32'' token])"
  using assms by (simp add: post_verify_def)

text \<open>
  C10. The claim has POST /verify never answer success for an account without a
  \<open>twoFactorSecret\<close>. The route does: the account of the instance that has no secret,
  asked at 100 s with the code 887919 (the code of the empty key at that time, which is how
  the library reads the undefined secret), gets 200 with \<open>status: success\<close>, after the
  lookup and one call of \<open>speakeasy.totp.verify\<close> with the undefined secret.
\<close>

theorem verify_without_secret_accepted:
  "findOne demo_db (Some ''a@x.com'') = Inr (Some demo_a)
 \<and> twoFactorSecret demo_a = None
 \<and> post_verify demo_env 100 demo_db (Some ''a@x.com'') (Some ''887919'') =
     (reply 200 [(''status'', JStr ''success'')],
      [FindOne (Some ''a@x.com''), TotpVerify None ''base32'' (Some ''887919'')])
 \<and> status (fst (post_verify demo_env 100 demo_db (Some ''a@x.com'') (Some ''887919''))) = 200"
proof -
  have h1: "truthy (Some ''a@x.com'')" and h2: "truthy (Some ''887919'')"
    by (simp_all add: truthy_def)
  have s: "twoFactorSecret demo_a = None"
    by (simp add: demo_defs)
  have h4: "totp_verify demo_env (twoFactorSecret demo_a) ''base32'' (Some ''887919'') 100 =
      Inr True"
    by (simp add: demo_defs)
  from post_verify_relays [OF h1 h2 demo_findOne_a h4]
  show ?thesis using demo_findOne_a s by (simp add: reply_def)
qed

text \<open>The request of that run passes the route's check that both fields were sent.\<close>

theorem verify_without_secret_accepted_witness:
  "truthy (Some ''a@x.com'') \<and> truthy (Some ''887919'')
 \<and> twoFactorSecret demo_a = None
 \<and> fst (post_verify demo_env 100 demo_db (Some ''a@x.com'') (Some ''887919'')) =
     reply 200 [(''status'', JStr ''success'')]"
  using verify_without_secret_accepted by (simp add: truthy_def)

text \<open>
  C7, as amended. POST /setup for a found account, with email and password sent, a true
  \<open>bcrypt.compare\<close> and a QR rendering that succeeds: the route asks
  \<open>generateSecret\<close> for a secret of length 20, saves the account with \<open>twoFactorSecret\<close>
  set to the secret's base32 form (every other field and every other document as before,
  a prior secret overwritten, and a later lookup of the email returns the account with the
  new secret), builds the URL from the same secret's ascii form with the fixed label
  \<open>Bonnier\<close> and the fixed issuer \<open>Exjobb\<close>, and answers with the rendered image. The URL
  and the image are not saved: \<open>save\<close> is called before they exist, and a document has no
  field for them. The label is a constant: nothing in the URL names the account.
\<close>

theorem setup_enrolls:
  assumes "truthy email0" and "truthy password0"
    and "findOne db email0 = Inr (Some user)"
    and "bcrypt_compare env password0 (password user) = Inr True"
    and "generateSecret env 20 entropy = s"
    and "otpauthURL env (secret_ascii s) ''Bonnier'' ''Exjobb'' = url"
    and "toDataURL env url = Inr img"
    and "user' = user\<lparr>twoFactorSecret := Some (secret_base32 s)\<rparr>"
  shows "\<exists>db'. post_setup env entropy db email0 password0 =
           (reply 200 [(''qrCodeImageUrl'', JStr img)], db',
            [FindOne email0, BcryptCompare password0 (password user), GenerateSecret 20,
             Save user', OtpauthURL (secret_ascii s) ''Bonnier'' ''Exjobb'', ToDataURL url])
         \<and> docs db' = map (\<lambda>d. if uid d = uid user then user' else d) (docs db)
         \<and> findOne db' email0 = Inr (Some user')"
proof -
  let ?u = "user\<lparr>twoFactorSecret := Some (secret_base32 s)\<rparr>"
  from assms(3) have on: "online db"
    and f: "find (\<lambda>d. Some (email d) = email0) (docs db) = Some user"
    by (auto simp: findOne_def split: if_splits)
  have f': "find (\<lambda>d. Some (email d) = email0)
              (map (\<lambda>d. if uid d = uid user then ?u else d) (docs db)) = Some ?u"
    using find_after_replace[OF f, of ?u] by simp
  show ?thesis
    unfolding assms(8) using assms(1-7) on f'
    by (simp add: post_setup_def save_def findOne_def Let_def)
qed

theorem setup_enrolls_witness:
  "truthy (Some ''b@x.com'') \<and> truthy (Some ''p2'')
 \<and> findOne demo_db (Some ''b@x.com'') = Inr (Some demo_b)
 \<and> bcrypt_compare demo_env (Some ''p2'') (password demo_b) = Inr True
 \<and> generateSecret demo_env 20 5 =
     \<lparr>secret_ascii = ''raw-secret'', secret_base32 = ''NEWSECRET''\<rparr>
 \<and> otpauthURL demo_env ''raw-secret'' ''Bonnier'' ''Exjobb'' =
     ''otpauth://totp/Bonnier?secret=raw-secret&issuer=Exjobb''
 \<and> toDataURL demo_env ''otpauth://totp/Bonnier?secret=raw-secret&issuer=Exjobb'' =
     Inr ''data:image/png;base64,otpauth://totp/Bonnier?secret=raw-secret&issuer=Exjobb''
 \<and> (\<exists>db'. post_setup demo_env 5 demo_db (Some ''b@x.com'') (Some ''p2'') =
       (reply 200 [(''qrCodeImageUrl'', JStr
          ''data:image/png;base64,otpauth://totp/Bonnier?secret=raw-secret&issuer=Exjobb'')],
        db',
        [FindOne (Some ''b@x.com''), BcryptCompare (Some ''p2'') (password demo_b),
         GenerateSecret 20, Save (demo_b\<lparr>twoFactorSecret := Some ''NEWSECRET''\<rparr>),
         OtpauthURL ''raw-secret'' ''Bonnier'' ''Exjobb'',
         ToDataURL ''otpauth://totp/Bonnier?secret=raw-secret&issuer=Exjobb''])
     \<and> docs db' = [demo_a, demo_b\<lparr>twoFactorSecret := Some ''NEWSECRET''\<rparr>]
     \<and> findOne db' (Some ''b@x.com'') =
         Inr (Some (demo_b\<lparr>twoFactorSecret := Some ''NEWSECRET''\<rparr>)))"
proof -
  have h1: "truthy (Some ''b@x.com'')" and h2: "truthy (Some ''p2'')"
    by (simp_all add: truthy_def)
  have h4: "bcrypt_compare demo_env (Some ''p2'') (password demo_b) = Inr True"
    by (simp add: demo_defs)
  have h5: "generateSecret demo_env 20 5 =
      \<lparr>secret_ascii = ''raw-secret'', secret_base32 = ''NEWSECRET''\<rparr>"
    by (simp add: demo_defs)
  have h6: "otpauthURL demo_env
      (secret_ascii \<lparr>secret_ascii = ''raw-secret'', secret_base32 = ''NEWSECRET''\<rparr>)
      ''Bonnier'' ''Exjobb'' = ''otpauth://totp/Bonnier?secret=raw-secret&issuer=Exjobb''"
    by (simp add: demo_defs)
  have h7: "toDataURL demo_env ''otpauth://totp/Bonnier?secret=raw-secret&issuer=Exjobb'' =
      Inr ''data:image/png;base64,otpauth://totp/Bonnier?secret=raw-secret&issuer=Exjobb''"
    by (simp add: demo_defs)
  have h8: "demo_b\<lparr>twoFactorSecret := Some ''NEWSECRET''\<rparr> =
      demo_b\<lparr>twoFactorSecret :=
        Some (secret_base32 \<lparr>secret_ascii = ''raw-secret'', secret_base32 = ''NEWSECRET''\<rparr>)\<rparr>"
    by simp
  have d: "map (\<lambda>d. if uid d = uid demo_b then demo_b\<lparr>twoFactorSecret := Some ''NEWSECRET''\<rparr>
                     else d) (docs demo_db) =
      [demo_a, demo_b\<lparr>twoFactorSecret := Some ''NEWSECRET''\<rparr>]"
    by (simp add: demo_defs)
  from setup_enrolls [OF h1 h2 demo_findOne_b h4 h5 h6 h7 h8]
  show ?thesis using h1 h2 demo_findOne_b h4 h5 h6 h7 d by simp
qed

text \<open>
  The claim as stated fails where it has the URI bind a label that identifies the
  enrolling account: set up for two different accounts, the route passes the same label,
  and with the same secret drawn the two answers are the same.
\<close>

theorem setup_label_counterexample:
  "OtpauthURL ''raw-secret'' ''Bonnier'' ''Exjobb'' \<in>
     set (snd (snd (post_setup demo_env 5 demo_db (Some ''a@x.com'') (Some ''p1''))))
 \<and> OtpauthURL ''raw-secret'' ''Bonnier'' ''Exjobb'' \<in>
     set (snd (snd (post_setup demo_env 5 demo_db (Some ''b@x.com'') (Some ''p2''))))
 \<and> fst (post_setup demo_env 5 demo_db (Some ''a@x.com'') (Some ''p1'')) =
     fst (post_setup demo_env 5 demo_db (Some ''b@x.com'') (Some ''p2''))
 \<and> email demo_a \<noteq> email demo_b"
  by (simp add: post_setup_def demo_findOne_a demo_findOne_b truthy_def)
     (simp add: demo_defs save_def Let_def)

section \<open>Registration\<close>

text \<open>
  C8. When a registration of an email has succeeded, a second registration of the same
  email on the resulting store, with any non-empty password (the route requires both
  fields), is answered 400 with the message that a user with this email exists
  (DuplicateAccount), after the lookup only, and returns the store as it was.
\<close>

theorem register_twice:
  assumes "post_register env db email0 password1 = (r1, db1, log1)"
    and "status r1 = 200"
    and "truthy password2"
  shows "post_register env db1 email0 password2 =
           (reply 400 [(''error'', JStr msg_user_exists)], db1, [FindOne email0])"
proof -
  from assms(1,2) obtain e p where e: "email0 = Some e" "e \<noteq> []" "password1 = Some p"
    and f: "findOne db (Some e) = Inr None"
    and s: "save_new env db e p = Inr db1"
    by (auto simp: post_register_def reply_def split: option.splits if_splits sum.splits)
  let ?new = "\<lparr>uid = fresh_uid (docs db), email = e, password = bcrypt_hash env p,
               twoFactorSecret = None\<rparr>"
  from f have on: "online db" and n: "find (\<lambda>d. Some (email d) = Some e) (docs db) = None"
    by (auto simp: findOne_def split: if_splits)
  from s on have d1: "db1 = db\<lparr>docs := docs db @ [?new]\<rparr>"
    by (auto simp: save_new_def)
  have x: "findOne db1 (Some e) = Inr (Some ?new)"
    using on find_after_append[OF n, of ?new] by (simp add: d1 findOne_def)
  from assms(3) obtain p2 where p2: "password2 = Some p2" "p2 \<noteq> []"
    by (auto simp: truthy_def split: option.splits)
  show ?thesis
    using e x p2 by (simp add: post_register_def)
qed

theorem register_twice_witness:
  "status (fst (post_register demo_env demo_db (Some ''z@x.com'') (Some ''p3''))) = 200
 \<and> truthy (Some ''other'')
 \<and> post_register demo_env
      (fst (snd (post_register demo_env demo_db (Some ''z@x.com'') (Some ''p3''))))
      (Some ''z@x.com'') (Some ''other'') =
     (reply 400 [(''error'', JStr msg_user_exists)],
      fst (snd (post_register demo_env demo_db (Some ''z@x.com'') (Some ''p3''))),
      [FindOne (Some ''z@x.com'')])
 \<and> length (docs (fst (snd (post_register demo_env demo_db (Some ''z@x.com'') (Some ''p3''))))) = 3"
proof -
  have h1: "post_register demo_env demo_db (Some ''z@x.com'') (Some ''p3'') =
      (fst (post_register demo_env demo_db (Some ''z@x.com'') (Some ''p3'')),
       fst (snd (post_register demo_env demo_db (Some ''z@x.com'') (Some ''p3''))),
       snd (snd (post_register demo_env demo_db (Some ''z@x.com'') (Some ''p3''))))"
    by simp
  have f: "findOne demo_db (Some ''z@x.com'') = Inr None"
    by (simp add: findOne_def demo_defs)
  have on: "online demo_db"
    by (simp add: demo_defs)
  have h2: "status (fst (post_register demo_env demo_db (Some ''z@x.com'') (Some ''p3''))) = 200"
    by (simp add: post_register_def f save_new_def on reply_def)
  have l: "length (docs (fst (snd (post_register demo_env demo_db (Some ''z@x.com'')
             (Some ''p3''))))) = 3"
    by (simp add: post_register_def f save_new_def on) (simp add: demo_defs)
  have h3: "truthy (Some ''other'')"
    by (simp add: truthy_def)
  from register_twice [OF h1 h2 h3]
  show ?thesis using h2 h3 l by simp
qed

section \<open>Session tokens and federated login\<close>

text \<open>
  C5. \<open>authenticateToken\<close> answers 403 (TokenMissing) when there is no cookie or the cookie
  is empty, and 401 (TokenInvalid) for any other string that is no token. A token is
  accepted, and \<open>req.user\<close> set to its email, exactly when it was signed with the key that
  matches the service's public key, the time is before its expiry, and its algorithm is
  RS256, the only one the route allows; otherwise the answer is 401 (TokenInvalid).
\<close>

theorem token_verification:
  "authenticateToken cfg now None = Inl (reply 403 [(''error'', JStr msg_token_missing)])
 \<and> authenticateToken cfg now (Some (Garbled s)) =
     (if s = [] then Inl (reply 403 [(''error'', JStr msg_token_missing)])
      else Inl (reply 401 [(''error'', JStr msg_token_invalid)]))
 \<and> authenticateToken cfg now (Some (Signed t)) =
     (if jwt_key t = publicKey cfg \<and> now < jwt_exp t \<and> jwt_alg t = RS256
      then Inr (jwt_email t)
      else Inl (reply 401 [(''error'', JStr msg_token_invalid)]))"
  by (auto simp: authenticateToken_def)

theorem token_verification_witness:
  "authenticateToken demo_cfg 100
     (Some (Signed \<lparr>jwt_alg = RS256, jwt_email = Some ''a@x.com'', jwt_iat = 50,
                     jwt_exp = 3650, jwt_key = 7\<rparr>)) = Inr (Some ''a@x.com'')
 \<and> authenticateToken demo_cfg 100
     (Some (Signed \<lparr>jwt_alg = HS256, jwt_email = Some ''a@x.com'', jwt_iat = 50,
                     jwt_exp = 3650, jwt_key = 7\<rparr>)) =
     Inl (reply 401 [(''error'', JStr msg_token_invalid)])
 \<and> authenticateToken demo_cfg 100
     (Some (Signed \<lparr>jwt_alg = RS256, jwt_email = Some ''a@x.com'', jwt_iat = 50,
                     jwt_exp = 3650, jwt_key = 8\<rparr>)) =
     Inl (reply 401 [(''error'', JStr msg_token_invalid)])
 \<and> authenticateToken demo_cfg 3650
     (Some (Signed \<lparr>jwt_alg = RS256, jwt_email = Some ''a@x.com'', jwt_iat = 50,
                     jwt_exp = 3650, jwt_key = 7\<rparr>)) =
     Inl (reply 401 [(''error'', JStr msg_token_invalid)])"
proof -
  note v = token_verification [where cfg = demo_cfg and now = 100 and s = "[]"]
  note w = token_verification [where cfg = demo_cfg and now = 3650 and s = "[]"]
  have k: "publicKey demo_cfg = 7"
    by (simp add: demo_defs)
  show ?thesis
    using v [where t = "\<lparr>jwt_alg = RS256, jwt_email = Some ''a@x.com'', jwt_iat = 50,
                     jwt_exp = 3650, jwt_key = 7\<rparr>"]
      v [where t = "\<lparr>jwt_alg = HS256, jwt_email = Some ''a@x.com'', jwt_iat = 50,
                     jwt_exp = 3650, jwt_key = 7\<rparr>"]
      v [where t = "\<lparr>jwt_alg = RS256, jwt_email = Some ''a@x.com'', jwt_iat = 50,
                     jwt_exp = 3650, jwt_key = 8\<rparr>"]
      w [where t = "\<lparr>jwt_alg = RS256, jwt_email = Some ''a@x.com'', jwt_iat = 50,
                     jwt_exp = 3650, jwt_key = 7\<rparr>"]
    by (simp add: k)
qed

text \<open>
  C9. When POST /login succeeds and the two keys of the service are a pair, the cookie
  holds a token issued at the time of the request and expiring 3600 seconds later;
  \<open>authenticateToken\<close> accepts it at that same time, and at every time before the expiry,
  with the email of the login as \<open>req.user\<close>, and answers 401 (TokenInvalid) at every
  time after the expiry.
\<close>

theorem token_round_trip:
  assumes "post_login env cfg now db email0 password0 tok = (r, log)"
    and "status r = 200"
    and "publicKey cfg = privateKey cfg"
  shows "\<exists>t. cookie r = Some (Signed t)
           \<and> jwt_iat t = now \<and> jwt_exp t = now + 3600
           \<and> authenticateToken cfg now (cookie r) = Inr email0
           \<and> (\<forall>later. later < jwt_exp t \<longrightarrow> authenticateToken cfg later (cookie r) = Inr email0)
           \<and> (\<forall>later. jwt_exp t < later \<longrightarrow>
                authenticateToken cfg later (cookie r) =
                  Inl (reply 401 [(''error'', JStr msg_token_invalid)]))"
proof -
  from assms(1,2) obtain user where u: "findOne db email0 = Inr (Some user)"
    and r: "r = \<lparr>status = 200, body = [(''status'', JStr ''success'')],
                  cookie = Some (Signed
                    (jwt_sign (Some (email user)) (privateKey cfg) RS256 3600 now))\<rparr>"
    by (auto simp: post_login_def reply_def split: sum.splits option.splits if_splits)
  from findOne_email[OF u] have e: "email0 = Some (email user)" .
  show ?thesis
    using assms(3) by (simp add: r e authenticateToken_def jwt_sign_def)
qed

theorem token_round_trip_witness:
  "status (fst (post_login demo_env demo_cfg 100 demo_db (Some ''a@x.com'') (Some ''p1'') None))
     = 200
 \<and> publicKey demo_cfg = privateKey demo_cfg
 \<and> authenticateToken demo_cfg 100
     (cookie (fst (post_login demo_env demo_cfg 100 demo_db (Some ''a@x.com'') (Some ''p1'')
        None))) = Inr (Some ''a@x.com'')
 \<and> authenticateToken demo_cfg 3699
     (cookie (fst (post_login demo_env demo_cfg 100 demo_db (Some ''a@x.com'') (Some ''p1'')
        None))) = Inr (Some ''a@x.com'')
 \<and> authenticateToken demo_cfg 3701
     (cookie (fst (post_login demo_env demo_cfg 100 demo_db (Some ''a@x.com'') (Some ''p1'')
        None))) = Inl (reply 401 [(''error'', JStr msg_token_invalid)])"
proof -
  let ?r = "fst (post_login demo_env demo_cfg 100 demo_db (Some ''a@x.com'') (Some ''p1'') None)"
  let ?log = "snd (post_login demo_env demo_cfg 100 demo_db (Some ''a@x.com'') (Some ''p1'') None)"
  have h1: "post_login demo_env demo_cfg 100 demo_db (Some ''a@x.com'') (Some ''p1'') None =
      (?r, ?log)"
    by simp
  have h2: "status ?r = 200"
    by (simp add: post_login_def demo_findOne_a) (simp add: demo_defs truthy_def)
  have h3: "publicKey demo_cfg = privateKey demo_cfg"
    by (simp add: demo_defs)
  from token_round_trip [OF h1 h2 h3] obtain t :: jwt
    where t: "jwt_exp t = 100 + 3600"
      and now: "authenticateToken demo_cfg 100 (cookie ?r) = Inr (Some ''a@x.com'')"
      and before: "\<forall>later. later < jwt_exp t \<longrightarrow>
          authenticateToken demo_cfg later (cookie ?r) = Inr (Some ''a@x.com'')"
      and after: "\<forall>later. jwt_exp t < later \<longrightarrow>
          authenticateToken demo_cfg later (cookie ?r) =
            Inl (reply 401 [(''error'', JStr msg_token_invalid)])"
    by blast
  from before t have b: "authenticateToken demo_cfg 3699 (cookie ?r) = Inr (Some ''a@x.com'')"
    by simp
  from after t have a: "authenticateToken demo_cfg 3701 (cookie ?r) =
      Inl (reply 401 [(''error'', JStr msg_token_invalid)])"
    by simp
  show ?thesis using h2 h3 now b a by simp
qed

text \<open>
  C6. POST /freja with an identifier, when the provider's request resolves. If the result's
  status is \<open>completed\<close> and it carries the \<open>extra\<close> object, the route answers success
  with a cookie holding a token signed for \<open>extra.primaryEmail\<close>, and that is the token's
  email. If the status is anything else, the route answers 401 with the provider's result
  as the error (ProviderRejected), sets no cookie and signs nothing. In neither case is
  the store asked: the route has no access to it, and no lookup is among its calls; no
  password and no code is read.
\<close>

theorem federated_login:
  assumes "login = Some l" and "l \<noteq> []"
    and "authRequest env (default_type type0) l = Inr result"
  shows "(eid_status result = ''completed'' \<longrightarrow>
            (\<forall>primaryEmail. eid_extra result = Some primaryEmail \<longrightarrow>
               post_freja env cfg now login type0 =
                 (Some \<lparr>status = 200,
                        body = [(''status'', JStr ''success''), (''user'', JResult result)],
                        cookie = Some (Signed
                          (jwt_sign primaryEmail (privateKey cfg) RS256 3600 now))\<rparr>,
                  [AuthRequest (default_type type0) l,
                   JwtSign primaryEmail (privateKey cfg) RS256 3600])
             \<and> jwt_email (jwt_sign primaryEmail (privateKey cfg) RS256 3600 now) = primaryEmail))
       \<and> (eid_status result \<noteq> ''completed'' \<longrightarrow>
            post_freja env cfg now login type0 =
              (Some \<lparr>status = 401, body = [(''error'', JResult result)], cookie = None\<rparr>,
               [AuthRequest (default_type type0) l]))
       \<and> \<not> (\<exists>c \<in> set (snd (post_freja env cfg now login type0)). is_FindOne c)"
  using assms
  by (auto simp: post_freja_def reply_def jwt_sign_def Let_def split: option.splits)

theorem federated_login_witness:
  "authRequest demo_env (default_type None) ''199001011234'' =
     Inr \<lparr>eid_status = ''completed'', eid_extra = Some (Some ''c@x.com''), eid_details = ''ok''\<rparr>
 \<and> post_freja demo_env demo_cfg 100 (Some ''199001011234'') None =
     (Some \<lparr>status = 200,
            body = [(''status'', JStr ''success''),
                    (''user'', JResult \<lparr>eid_status = ''completed'',
                       eid_extra = Some (Some ''c@x.com''), eid_details = ''ok''\<rparr>)],
            cookie = Some (Signed
              (jwt_sign (Some ''c@x.com'') (privateKey demo_cfg) RS256 3600 100))\<rparr>,
      [AuthRequest (default_type None) ''199001011234'',
       JwtSign (Some ''c@x.com'') (privateKey demo_cfg) RS256 3600])
 \<and> jwt_email (jwt_sign (Some ''c@x.com'') (privateKey demo_cfg) RS256 3600 100) =
     Some ''c@x.com''
 \<and> authRequest demo_env (default_type (Some ''email'')) ''d@x.com'' =
     Inr \<lparr>eid_status = ''failed'', eid_extra = None, eid_details = ''cancelled''\<rparr>
 \<and> post_freja demo_env demo_cfg 100 (Some ''d@x.com'') (Some ''email'') =
     (Some \<lparr>status = 401,
            body = [(''error'', JResult \<lparr>eid_status = ''failed'', eid_extra = None,
                      eid_details = ''cancelled''\<rparr>)],
            cookie = None\<rparr>,
      [AuthRequest (default_type (Some ''email'')) ''d@x.com''])"
proof -
  have g: "authRequest demo_env (default_type None) ''199001011234'' =
     Inr \<lparr>eid_status = ''completed'', eid_extra = Some (Some ''c@x.com''), eid_details = ''ok''\<rparr>"
    by (simp add: demo_defs)
  have b: "authRequest demo_env (default_type (Some ''email'')) ''d@x.com'' =
     Inr \<lparr>eid_status = ''failed'', eid_extra = None, eid_details = ''cancelled''\<rparr>"
    by (simp add: demo_defs)
  have ne: "''199001011234'' \<noteq> []" "''d@x.com'' \<noteq> []"
    by simp_all
  note good = federated_login [OF refl ne(1) g, where cfg = demo_cfg and now = 100]
  note bad = federated_login [OF refl ne(2) b, where cfg = demo_cfg and now = 100]
  show ?thesis
    using good bad g b by simp
qed

end
